theory Spec2Isabelle
  imports Main
begin

section \<open>External collaborators: panics, regexp, slog, gin\<close>

text \<open>
  The two middlewares of ginslog (packages \<open>logger\<close> and \<open>recovery\<close>) are glue
  between three libraries that are not part of the repository: Go's \<open>regexp\<close>, Go's
  \<open>log/slog\<close> and the gin web framework. The model keeps of each library only the
  interface the middlewares use.
\<close>

subsection \<open>Panics\<close>

text \<open>
  A Go panic carries a value of type \<open>interface{}\<close>. The values that occur here are the
  strings \<open>validate\<close> panics with, the error \<open>regexp.MustCompile\<close> panics with, and
  the run-time error of calling a nil function value. Since Go 1.21 (the release that
  introduced \<open>log/slog\<close>) \<open>panic(nil)\<close> is turned into a run-time error as well, so
  \<open>recover()\<close> returns a non-nil value for every panic.
\<close>

datatype PanicValue =
    PanicString string
  | RuntimeError string
  | RegexpCompileError string

definition nilDereference :: PanicValue where
  "nilDereference = RuntimeError ''invalid memory address or nil pointer dereference''"

text \<open>
  A computation on a mutable state either returns or panics; in both cases the state as
  mutated so far stays behind.
\<close>

datatype 'a Result = Returned 'a | Panicked PanicValue 'a

fun stateOf :: "'a Result \<Rightarrow> 'a" where
  "stateOf (Returned s) = s"
| "stateOf (Panicked p s) = s"

fun panicOf :: "'a Result \<Rightarrow> PanicValue option" where
  "panicOf (Returned s) = None"
| "panicOf (Panicked p s) = Some p"

subsection \<open>Package regexp\<close>

text \<open>
  The regular-expression engine is a parameter of the model: which expressions compile,
  and which strings a compiled expression matches (\<open>MatchString\<close> is an unanchored
  search in Go). A compiled \<open>*regexp.Regexp\<close> is represented by its source text.
\<close>

record regexp_pkg =
  compiles :: "string \<Rightarrow> bool"
  matches :: "string \<Rightarrow> string \<Rightarrow> bool"

datatype Regexp = Regexp (expr: string)

definition MustCompile :: "regexp_pkg \<Rightarrow> string \<Rightarrow> PanicValue + Regexp" where
  "MustCompile re e = (if compiles re e then Inr (Regexp e) else Inl (RegexpCompileError e))"

definition MatchString :: "regexp_pkg \<Rightarrow> Regexp \<Rightarrow> string \<Rightarrow> bool" where
  "MatchString re v s = matches re (expr v) s"

subsection \<open>fmt.Sprintf("%d", n)\<close>

definition digit :: "nat \<Rightarrow> char" where
  "digit d = char_of (48 + d)"

fun decimal_nat :: "nat \<Rightarrow> string" where
  "decimal_nat n = (if n < 10 then [digit n] else decimal_nat (n div 10) @ [digit (n mod 10)])"

declare decimal_nat.simps [simp del]

definition Sprintf_d :: "int \<Rightarrow> string" where
  "Sprintf_d n = (if n < 0 then CHR ''-'' # decimal_nat (nat (- n)) else decimal_nat (nat n))"

subsection \<open>Package log/slog\<close>

type_synonym Level = int

definition LevelDebug :: Level where "LevelDebug = - 4"
definition LevelInfo :: Level where "LevelInfo = 0"
definition LevelWarn :: Level where "LevelWarn = 4"
definition LevelError :: Level where "LevelError = 8"

datatype Value =
    StringValue string
  | IntValue int
  | DurationValue int
  | AnyValue PanicValue

type_synonym Attr = "string \<times> Value"

definition slog_String :: "string \<Rightarrow> string \<Rightarrow> Attr" where
  "slog_String k v = (k, StringValue v)"

definition slog_Int :: "string \<Rightarrow> int \<Rightarrow> Attr" where
  "slog_Int k v = (k, IntValue v)"

definition slog_Duration :: "string \<Rightarrow> int \<Rightarrow> Attr" where
  "slog_Duration k v = (k, DurationValue v)"

definition slog_Any :: "string \<Rightarrow> PanicValue \<Rightarrow> Attr" where
  "slog_Any k v = (k, AnyValue v)"

text \<open>
  A record handed to the logger sink. The sink is the list of records submitted through
  \<open>logger.LogAttrs\<close>, oldest first; what the sink's handler does with a record (its own
  level threshold, its output format) belongs to the sink.
\<close>

record LogRecord =
  Level :: Level
  Message :: string
  Attrs :: "Attr list"

subsection \<open>The gin context\<close>

record Request =
  Method :: string
  URLPath :: string
  UserAgent :: string

text \<open>
  Of \<open>*gin.Context\<close> the middlewares read the request, \<open>c.ClientIP()\<close> and
  \<open>c.Writer.Status()\<close>, and write a response header, the status and the abort flag.
  \<open>Written\<close> is \<open>c.Writer.Written()\<close>: the status line and the headers of the response
  have been sent, and the status can no longer change.
\<close>

record Context =
  Request :: Request
  ClientIP :: string
  Status :: int
  Written :: bool
  Header :: "string \<rightharpoonup> string"
  Aborted :: bool

text \<open>
  \<open>c.Header(key, value)\<close>: sets the response header, or deletes it when the value is
  empty. Header names are case-insensitive; the map is keyed by the name as the caller
  writes it.
\<close>

definition Context_Header :: "Context \<Rightarrow> string \<Rightarrow> string \<Rightarrow> Context" where
  "Context_Header c key v =
     (if v = [] then c\<lparr>Header := (Header c)(key := None)\<rparr>
      else c\<lparr>Header := (Header c)(key \<mapsto> v)\<rparr>)"

text \<open>
  gin's response writer. \<open>WriteHeader(code)\<close> records the status to send, unless the
  response is already written: then it only warns and keeps the status that was sent.
  \<open>WriteHeaderNow()\<close> sends the status line if it has not been sent.
\<close>

definition WriteHeader :: "Context \<Rightarrow> int \<Rightarrow> Context" where
  "WriteHeader c code =
     (if code > 0 \<and> Status c \<noteq> code
      then (if Written c then c else c\<lparr>Status := code\<rparr>)
      else c)"

definition WriteHeaderNow :: "Context \<Rightarrow> Context" where
  "WriteHeaderNow c = (if \<not> Written c then c\<lparr>Written := True\<rparr> else c)"

definition Abort :: "Context \<Rightarrow> Context" where
  "Abort c = c\<lparr>Aborted := True\<rparr>"

text \<open>
  \<open>c.AbortWithStatus(code)\<close> is \<open>c.Status(code)\<close>, that is
  \<open>c.Writer.WriteHeader(code)\<close>, then \<open>c.Writer.WriteHeaderNow()\<close>, then \<open>c.Abort()\<close>.
\<close>

definition AbortWithStatus :: "Context \<Rightarrow> int \<Rightarrow> Context" where
  "AbortWithStatus c code = Abort (WriteHeaderNow (WriteHeader c code))"

definition StatusInternalServerError :: int where
  "StatusInternalServerError = 500"

text \<open>
  \<open>c.Next()\<close> runs the downstream handlers on the context: they return or panic, and
  leave the context as they mutated it.
\<close>

type_synonym Next = "Context \<Rightarrow> Context Result"

text \<open>
  What a middleware's closure works on: the configuration it captured, the context of the
  request, and the logger sink.
\<close>

record 'cfg World =
  config :: 'cfg
  ctx :: Context
  sink :: "LogRecord list"

definition LogAttrs :: "Level \<Rightarrow> string \<Rightarrow> Attr list \<Rightarrow> 'cfg World \<Rightarrow> 'cfg World" where
  "LogAttrs lvl msg attrs w =
     w\<lparr>sink := sink w @ [\<lparr>Level = lvl, Message = msg, Attrs = attrs\<rparr>]\<rparr>"

section \<open>Package logger\<close>

subsection \<open>config.go\<close>

definition HTTPInformationalRegex :: string where
  "HTTPInformationalRegex = ''^1[0-9]{2}$''"
definition HTTPSuccessfulRegex :: string where
  "HTTPSuccessfulRegex = ''^2[0-9]{2}$''"
definition HTTPRedirectionRegex :: string where
  "HTTPRedirectionRegex = ''^3[0-9]{2}$''"
definition HTTPClientErrorRegex :: string where
  "HTTPClientErrorRegex = ''^4[0-9]{2}$''"
definition HTTPServerErrorRegex :: string where
  "HTTPServerErrorRegex = ''^5[0-9]{2}$''"

text \<open>
  The two callback types. A callback is a total function of the context: \<open>CustomFields\<close>
  returns the attributes to add, \<open>CustomLogger\<close> the records it submits to the logger.
  A nil function value is \<open>None\<close>.
\<close>

type_synonym CustomFields = "Context \<Rightarrow> Attr list"
type_synonym CustomLogger = "Context \<Rightarrow> LogRecord list"

record httpLevel =
  level :: Level
  regexp :: Regexp

definition newhttpLevel :: "regexp_pkg \<Rightarrow> string \<Rightarrow> Level \<Rightarrow> PanicValue + httpLevel" where
  "newhttpLevel re e lvl =
     (case MustCompile re e of
        Inl p \<Rightarrow> Inl p
      | Inr r \<Rightarrow> Inr \<lparr>level = lvl, regexp = r\<rparr>)"

definition match :: "regexp_pkg \<Rightarrow> httpLevel \<Rightarrow> int \<Rightarrow> bool" where
  "match re h code = MatchString re (regexp h) (Sprintf_d code)"

record Config =
  defaultLevel :: Level
  httpLevels :: "httpLevel list"
  whitelistPaths :: "Regexp list"
  blacklistPaths :: "Regexp list"
  customLogger :: "CustomLogger option"
  customFields :: "CustomFields option"
  ipField :: bool
  statusField :: bool
  methodField :: bool
  pathField :: bool
  userAgentField :: bool
  latencyField :: bool
  requestIDField :: bool

text \<open>
  Appending \<open>newhttpLevel(k, v)\<close> for each pair in turn, as the slice literal of
  \<open>newConfig\<close> and the loop of \<open>WithHTTPLevels\<close> do; the first expression that does
  not compile panics.
\<close>

fun newhttpLevels :: "regexp_pkg \<Rightarrow> httpLevel list \<Rightarrow> (string \<times> Level) list \<Rightarrow> PanicValue + httpLevel list" where
  "newhttpLevels re acc [] = Inr acc"
| "newhttpLevels re acc ((k, v) # kvs) =
     (case newhttpLevel re k v of
        Inl p \<Rightarrow> Inl p
      | Inr h \<Rightarrow> newhttpLevels re (acc @ [h]) kvs)"

text \<open>
  The composite literal of \<open>newConfig\<close> names no \<open>customLogger\<close>: the field keeps its
  zero value, nil.
\<close>

definition newConfig :: "regexp_pkg \<Rightarrow> PanicValue + Config" where
  "newConfig re =
     (case newhttpLevels re []
             [(HTTPInformationalRegex, LevelInfo),
              (HTTPSuccessfulRegex, LevelInfo),
              (HTTPRedirectionRegex, LevelInfo),
              (HTTPClientErrorRegex, LevelWarn),
              (HTTPServerErrorRegex, LevelError)] of
        Inl p \<Rightarrow> Inl p
      | Inr hs \<Rightarrow> Inr
          \<lparr>defaultLevel = LevelInfo,
           httpLevels = hs,
           whitelistPaths = [],
           blacklistPaths = [],
           customLogger = None,
           customFields = None,
           ipField = True,
           statusField = True,
           methodField = True,
           pathField = True,
           userAgentField = True,
           latencyField = True,
           requestIDField = True\<rparr>)"

definition isDefaultFields :: "Config \<Rightarrow> bool" where
  "isDefaultFields c \<longleftrightarrow>
     ipField c \<or> statusField c \<or> methodField c \<or> pathField c \<or>
     userAgentField c \<or> latencyField c \<or> requestIDField c"

definition validate :: "Config \<Rightarrow> PanicValue + unit" where
  "validate c =
     (if length (whitelistPaths c) \<noteq> 0 \<and> length (blacklistPaths c) \<noteq> 0
      then Inl (PanicString ''whitelist and blacklist can't be used together'')
      else if \<not> isDefaultFields c \<and> customFields c = None
      then Inl (PanicString ''no fields to log'')
      else Inr ())"

type_synonym ConfigOption = "Config \<Rightarrow> PanicValue + Config"

definition WithDefaultLevel :: "Level \<Rightarrow> ConfigOption" where
  "WithDefaultLevel lvl c = Inr (c\<lparr>defaultLevel := lvl\<rparr>)"

text \<open>
  \<open>WithHTTPLevels\<close> ranges over a Go map, whose iteration order the run time chooses:
  the argument is the list of the map's entries in the order the \<open>range\<close> yields them.
\<close>

definition WithHTTPLevels :: "regexp_pkg \<Rightarrow> (string \<times> Level) list \<Rightarrow> ConfigOption" where
  "WithHTTPLevels re kvs c =
     (case newhttpLevels re [] kvs of
        Inl p \<Rightarrow> Inl p
      | Inr hs \<Rightarrow> Inr (c\<lparr>httpLevels := hs\<rparr>))"

fun appendCompiled :: "regexp_pkg \<Rightarrow> Regexp list \<Rightarrow> string list \<Rightarrow> PanicValue + Regexp list" where
  "appendCompiled re acc [] = Inr acc"
| "appendCompiled re acc (v # vs) =
     (case MustCompile re v of
        Inl p \<Rightarrow> Inl p
      | Inr r \<Rightarrow> appendCompiled re (acc @ [r]) vs)"

definition WithWhitelistPath :: "regexp_pkg \<Rightarrow> string list \<Rightarrow> ConfigOption" where
  "WithWhitelistPath re whitelistPath c =
     (case appendCompiled re (whitelistPaths c) whitelistPath of
        Inl p \<Rightarrow> Inl p
      | Inr rs \<Rightarrow> Inr (c\<lparr>whitelistPaths := rs\<rparr>))"

definition WithBlacklistPath :: "regexp_pkg \<Rightarrow> string list \<Rightarrow> ConfigOption" where
  "WithBlacklistPath re blacklistPath c =
     (case appendCompiled re (blacklistPaths c) blacklistPath of
        Inl p \<Rightarrow> Inl p
      | Inr rs \<Rightarrow> Inr (c\<lparr>blacklistPaths := rs\<rparr>))"

definition WithCustomLogger :: "CustomLogger option \<Rightarrow> ConfigOption" where
  "WithCustomLogger f c = Inr (c\<lparr>customLogger := f\<rparr>)"

definition WithCustomFields :: "CustomFields option \<Rightarrow> ConfigOption" where
  "WithCustomFields f c = Inr (c\<lparr>customFields := f\<rparr>)"

definition WithoutDefaultFields :: ConfigOption where
  "WithoutDefaultFields c =
     Inr (c\<lparr>ipField := False, statusField := False, methodField := False,
            pathField := False, userAgentField := False, latencyField := False,
            requestIDField := False\<rparr>)"

definition WithoutIP :: ConfigOption where
  "WithoutIP c = Inr (c\<lparr>ipField := False\<rparr>)"

definition WithoutStatus :: ConfigOption where
  "WithoutStatus c = Inr (c\<lparr>statusField := False\<rparr>)"

definition WithoutMethod :: ConfigOption where
  "WithoutMethod c = Inr (c\<lparr>methodField := False\<rparr>)"

definition WithoutPath :: ConfigOption where
  "WithoutPath c = Inr (c\<lparr>pathField := False\<rparr>)"

definition WithoutUserAgent :: ConfigOption where
  "WithoutUserAgent c = Inr (c\<lparr>userAgentField := False\<rparr>)"

definition WithoutLatency :: ConfigOption where
  "WithoutLatency c = Inr (c\<lparr>latencyField := False\<rparr>)"

definition WithoutRequestID :: ConfigOption where
  "WithoutRequestID c = Inr (c\<lparr>requestIDField := False\<rparr>)"

subsection \<open>middleware.go\<close>

text \<open>\<open>for _, opt := range opts { opt(config) }\<close>: a panicking option ends the loop.\<close>

fun applyOpts :: "('c \<Rightarrow> PanicValue + 'c) list \<Rightarrow> 'c \<Rightarrow> PanicValue + 'c" where
  "applyOpts [] c = Inr c"
| "applyOpts (opt # opts) c =
     (case opt c of
        Inl p \<Rightarrow> Inl p
      | Inr c' \<Rightarrow> applyOpts opts c')"

text \<open>
  \<open>New\<close> up to its \<open>return\<close>: the configuration the returned closure captures, or the
  panic that keeps \<open>New\<close> from returning a handler at all. The closure's body is
  \<open>handler\<close> below.
\<close>

definition New :: "regexp_pkg \<Rightarrow> ConfigOption list \<Rightarrow> PanicValue + Config" where
  "New re opts =
     (case newConfig re of
        Inl p \<Rightarrow> Inl p
      | Inr c0 \<Rightarrow>
          (case applyOpts opts c0 of
             Inl p \<Rightarrow> Inl p
           | Inr c \<Rightarrow>
               (case validate c of
                  Inl p \<Rightarrow> Inl p
                | Inr _ \<Rightarrow> Inr c)))"

text \<open>
  What a request draws from outside the context: the identifier \<open>uuid.New().String()\<close>
  returns, and the duration \<open>time.Since(start)\<close> measures when the latency attribute
  is built (nanoseconds).
\<close>

record Env =
  requestID :: string
  latency :: int

text \<open>
  The whitelist loop returns from the handler at the first expression that does not match
  the path; the blacklist loop at the first one that does. \<open>True\<close> stands for that
  \<open>return\<close>.
\<close>

fun whitelistReturns :: "regexp_pkg \<Rightarrow> Regexp list \<Rightarrow> string \<Rightarrow> bool" where
  "whitelistReturns re [] path = False"
| "whitelistReturns re (v # vs) path =
     (if \<not> MatchString re v path then True else whitelistReturns re vs path)"

fun blacklistReturns :: "regexp_pkg \<Rightarrow> Regexp list \<Rightarrow> string \<Rightarrow> bool" where
  "blacklistReturns re [] path = False"
| "blacklistReturns re (v # vs) path =
     (if MatchString re v path then True else blacklistReturns re vs path)"

definition attributes :: "Config \<Rightarrow> Env \<Rightarrow> Context \<Rightarrow> Attr list" where
  "attributes cfg env c =
     (if ipField cfg then [slog_String ''ip'' (ClientIP c)] else []) @
     (if statusField cfg then [slog_Int ''status'' (Status c)] else []) @
     (if methodField cfg then [slog_String ''method'' (Method (Request c))] else []) @
     (if pathField cfg then [slog_String ''path'' (URLPath (Request c))] else []) @
     (if userAgentField cfg then [slog_String ''user-agent'' (UserAgent (Request c))] else []) @
     (if latencyField cfg then [slog_Duration ''latency'' (latency env)] else []) @
     (if requestIDField cfg then [slog_String ''request-id'' (requestID env)] else []) @
     (case customFields cfg of None \<Rightarrow> [] | Some f \<Rightarrow> f c)"

text \<open>
  \<open>config.customLogger(c, logger)\<close>: the call is not guarded, and calling a nil function
  value panics.
\<close>

definition callCustomLogger :: "Config World \<Rightarrow> Config World Result" where
  "callCustomLogger w =
     (case customLogger (config w) of
        None \<Rightarrow> Panicked nilDereference w
      | Some f \<Rightarrow> Returned (w\<lparr>sink := sink w @ f (ctx w)\<rparr>))"

text \<open>
  The loop over \<open>config.httpLevels\<close>: at the first rule that matches the status it logs
  at the rule's level, calls the custom logger and returns from the handler
  (\<open>Some\<close>); \<open>None\<close> when the loop runs to its end.
\<close>

fun logStatus :: "regexp_pkg \<Rightarrow> httpLevel list \<Rightarrow> Attr list \<Rightarrow> Config World \<Rightarrow> Config World Result option" where
  "logStatus re [] attrs w = None"
| "logStatus re (h # hs) attrs w =
     (if match re h (Status (ctx w))
      then Some (callCustomLogger (LogAttrs (level h) ''Incoming request'' attrs w))
      else logStatus re hs attrs w)"

text \<open>The handler after \<open>c.Next()\<close> has returned.\<close>

definition afterNext :: "regexp_pkg \<Rightarrow> Env \<Rightarrow> Config World \<Rightarrow> Config World Result" where
  "afterNext re env w =
     (if length (whitelistPaths (config w)) > 0 \<and>
         whitelistReturns re (whitelistPaths (config w)) (URLPath (Request (ctx w)))
      then Returned w
      else if length (blacklistPaths (config w)) > 0 \<and>
         blacklistReturns re (blacklistPaths (config w)) (URLPath (Request (ctx w)))
      then Returned w
      else
        (let attrs = attributes (config w) env (ctx w) in
         case logStatus re (httpLevels (config w)) attrs w of
           Some r \<Rightarrow> r
         | None \<Rightarrow> callCustomLogger (LogAttrs (defaultLevel (config w)) ''Incoming request'' attrs w)))"

text \<open>
  The handler. It has no deferred function: a panic of the downstream chain leaves it at
  once, with nothing logged.
\<close>

definition handler :: "regexp_pkg \<Rightarrow> Env \<Rightarrow> Next \<Rightarrow> Config World \<Rightarrow> Config World Result" where
  "handler re env next w =
     (let c0 = (if requestIDField (config w)
                then Context_Header (ctx w) ''X-Request-ID'' (requestID env)
                else ctx w)
      in case next c0 of
           Panicked p c1 \<Rightarrow> Panicked p (w\<lparr>ctx := c1\<rparr>)
         | Returned c1 \<Rightarrow> afterNext re env (w\<lparr>ctx := c1\<rparr>))"

section \<open>Package recovery\<close>

text \<open>
  Names that package \<open>recovery\<close> shares with package \<open>logger\<close> carry the prefix
  \<open>recovery_\<close>.
\<close>

subsection \<open>config.go\<close>

text \<open>\<open>gin.RecoveryFunc\<close>: the recovery action, a function of the context and the recovered value.\<close>

type_synonym RecoveryFunc = "Context \<Rightarrow> PanicValue \<Rightarrow> Context"

record recovery_Config =
  recovery_defaultLevel :: Level
  customRecovery :: "RecoveryFunc option"
  recovery_customFields :: "CustomFields option"
  errorField :: bool
  requestField :: bool
  stackField :: bool

definition recovery_newConfig :: recovery_Config where
  "recovery_newConfig =
     \<lparr>recovery_defaultLevel = LevelError,
      customRecovery = Some (\<lambda>c err. AbortWithStatus c StatusInternalServerError),
      recovery_customFields = None,
      errorField = True,
      requestField = True,
      stackField = True\<rparr>"

definition recovery_isDefaultFields :: "recovery_Config \<Rightarrow> bool" where
  "recovery_isDefaultFields c \<longleftrightarrow> errorField c \<or> requestField c \<or> stackField c"

definition recovery_validate :: "recovery_Config \<Rightarrow> PanicValue + unit" where
  "recovery_validate c =
     (if \<not> recovery_isDefaultFields c \<and> recovery_customFields c = None
      then Inl (PanicString ''no fields to log'')
      else Inr ())"

type_synonym recovery_ConfigOption = "recovery_Config \<Rightarrow> PanicValue + recovery_Config"

definition recovery_WithDefaultLevel :: "Level \<Rightarrow> recovery_ConfigOption" where
  "recovery_WithDefaultLevel lvl c = Inr (c\<lparr>recovery_defaultLevel := lvl\<rparr>)"

definition WithCustomRecovery :: "RecoveryFunc option \<Rightarrow> recovery_ConfigOption" where
  "WithCustomRecovery f c = Inr (c\<lparr>customRecovery := f\<rparr>)"

definition recovery_WithCustomFields :: "CustomFields option \<Rightarrow> recovery_ConfigOption" where
  "recovery_WithCustomFields f c = Inr (c\<lparr>recovery_customFields := f\<rparr>)"

definition recovery_WithoutDefaultFields :: recovery_ConfigOption where
  "recovery_WithoutDefaultFields c =
     Inr (c\<lparr>errorField := False, requestField := False, stackField := False\<rparr>)"

definition WithoutError :: recovery_ConfigOption where
  "WithoutError c = Inr (c\<lparr>errorField := False\<rparr>)"

definition WithoutRequest :: recovery_ConfigOption where
  "WithoutRequest c = Inr (c\<lparr>requestField := False\<rparr>)"

definition WithoutStack :: recovery_ConfigOption where
  "WithoutStack c = Inr (c\<lparr>stackField := False\<rparr>)"

subsection \<open>middleware.go\<close>

definition recovery_New :: "recovery_ConfigOption list \<Rightarrow> PanicValue + recovery_Config" where
  "recovery_New opts =
     (case applyOpts opts recovery_newConfig of
        Inl p \<Rightarrow> Inl p
      | Inr c \<Rightarrow>
          (case recovery_validate c of
             Inl p \<Rightarrow> Inl p
           | Inr _ \<Rightarrow> Inr c))"

text \<open>
  What the deferred function draws from outside the context: the dump
  \<open>httputil.DumpRequest(c.Request, false)\<close> returns (\<open>None\<close> when it returns an error),
  and the text of \<open>debug.Stack()\<close>.
\<close>

record recovery_Env =
  DumpRequest :: "Request \<Rightarrow> string option"
  Stack :: string

definition recovery_attributes :: "recovery_Config \<Rightarrow> recovery_Env \<Rightarrow> PanicValue \<Rightarrow> Context \<Rightarrow> Attr list" where
  "recovery_attributes cfg env err c =
     (let httpRequest =
            (if recovery_isDefaultFields cfg
             then (case DumpRequest env (Request c) of None \<Rightarrow> [] | Some b \<Rightarrow> b)
             else [])
      in (if errorField cfg then [slog_Any ''error'' err] else []) @
         (if requestField cfg then [slog_String ''request'' httpRequest] else []) @
         (if stackField cfg then [slog_String ''stack'' (Stack env)] else []) @
         (case recovery_customFields cfg of None \<Rightarrow> [] | Some f \<Rightarrow> f c))"

text \<open>
  \<open>config.customRecovery(c, err)\<close>: not guarded either; \<open>WithCustomRecovery(nil)\<close> makes
  it a call of a nil function value, whose panic leaves the deferred function.
\<close>

definition callCustomRecovery :: "PanicValue \<Rightarrow> recovery_Config World \<Rightarrow> recovery_Config World Result" where
  "callCustomRecovery err w =
     (case customRecovery (config w) of
        None \<Rightarrow> Panicked nilDereference w
      | Some f \<Rightarrow> Returned (w\<lparr>ctx := f (ctx w) err\<rparr>))"

text \<open>The body of the deferred function when \<open>recover()\<close> returns \<open>err\<close>.\<close>

definition recovered :: "recovery_Env \<Rightarrow> PanicValue \<Rightarrow> recovery_Config World \<Rightarrow> recovery_Config World Result" where
  "recovered env err w =
     callCustomRecovery err
       (LogAttrs (recovery_defaultLevel (config w)) ''Panic recovered''
          (recovery_attributes (config w) env err (ctx w)) w)"

text \<open>
  The handler: \<open>c.Next()\<close> under the deferred function. When the chain returns,
  \<open>recover()\<close> is nil and the deferred function does nothing.
\<close>

definition recovery_handler :: "recovery_Env \<Rightarrow> Next \<Rightarrow> recovery_Config World \<Rightarrow> recovery_Config World Result" where
  "recovery_handler env next w =
     (case next (ctx w) of
        Returned c1 \<Rightarrow> Returned (w\<lparr>ctx := c1\<rparr>)
      | Panicked err c1 \<Rightarrow> recovered env err (w\<lparr>ctx := c1\<rparr>))"

section \<open>A stand-in for package regexp\<close>

text \<open>
  A small engine for the expressions this repository itself uses: the five status-class
  expressions \<open>^D[0-9]{2}$\<close> and expressions without metacharacters, which match the
  strings that contain them. It compiles nothing else.
\<close>

definition isDigit :: "char \<Rightarrow> bool" where
  "isDigit ch \<longleftrightarrow> (48::nat) \<le> of_char ch \<and> of_char ch \<le> (57::nat)"

definition isMeta :: "char \<Rightarrow> bool" where
  "isMeta ch \<longleftrightarrow> ch = CHR 0x5C \<or> ch \<in> set ''.+*?()|[]{}^$''"

definition isClassExpr :: "string \<Rightarrow> bool" where
  "isClassExpr e \<longleftrightarrow>
     (case e of
        a # d # rest \<Rightarrow> a = CHR ''^'' \<and> isDigit d \<and> rest = ''[0-9]{2}$''
      | _ \<Rightarrow> False)"

fun contains :: "string \<Rightarrow> string \<Rightarrow> bool" where
  "contains e [] = (e = [])"
| "contains e (ch # s) = (take (length e) (ch # s) = e \<or> contains e s)"

definition standIn :: regexp_pkg where
  "standIn =
     \<lparr>compiles = (\<lambda>e. isClassExpr e \<or> \<not> list_ex isMeta e),
      matches = (\<lambda>e s.
        if isClassExpr e
        then length s = 3 \<and> hd s = hd (tl e) \<and> list_all isDigit s
        else contains e s)\<rparr>"

section \<open>The level the specification names\<close>

text \<open>
  In the specification's words: the level of the first rule, in configured order, whose
  expression matches the decimal string of the status code, else the default level.
\<close>

definition firstMatchLevel :: "regexp_pkg \<Rightarrow> Config \<Rightarrow> int \<Rightarrow> Level" where
  "firstMatchLevel re cfg code =
     (case find (\<lambda>h. MatchString re (regexp h) (Sprintf_d code)) (httpLevels cfg) of
        Some h \<Rightarrow> level h
      | None \<Rightarrow> defaultLevel cfg)"

section \<open>Concrete requests\<close>

text \<open>The request of the repository's tests: \<open>GET /test\<close> with user agent \<open>test\<close>.\<close>

definition testRequest :: Request where
  "testRequest = \<lparr>Method = ''GET'', URLPath = ''/test'', UserAgent = ''test''\<rparr>"

definition testContext :: Context where
  "testContext =
     \<lparr>Request = testRequest, ClientIP = ''192.0.2.1'', Status = 200, Written = False,
      Header = Map.empty, Aborted = False\<rparr>"

definition testEnv :: Env where
  "testEnv = \<lparr>requestID = ''52fdfc07-2182-454f-963f-5f0f9a621d72'', latency = 1500\<rparr>"

text \<open>
  A downstream chain that sets the status of the response and returns, as a handler
  calling \<open>c.Status(code)\<close> on a response not yet written does.
\<close>

definition respond :: "int \<Rightarrow> Next" where
  "respond code c = Returned (c\<lparr>Status := code\<rparr>)"

text \<open>A downstream chain that panics with a string.\<close>

definition panicking :: "string \<Rightarrow> Next" where
  "panicking msg c = Panicked (PanicString msg) c"

text \<open>
  A downstream chain that writes its response with a status, as \<open>c.String(code, ...)\<close>
  does, and panics afterwards.
\<close>

definition writesThenPanics :: "int \<Rightarrow> string \<Rightarrow> Next" where
  "writesThenPanics code msg c =
     Panicked (PanicString msg) (WriteHeaderNow (WriteHeader c code))"

text \<open>The configuration \<open>newConfig\<close> builds when the five expressions compile.\<close>

definition defaultConfig :: Config where
  "defaultConfig =
     \<lparr>defaultLevel = LevelInfo,
      httpLevels =
        [\<lparr>level = LevelInfo, regexp = Regexp HTTPInformationalRegex\<rparr>,
         \<lparr>level = LevelInfo, regexp = Regexp HTTPSuccessfulRegex\<rparr>,
         \<lparr>level = LevelInfo, regexp = Regexp HTTPRedirectionRegex\<rparr>,
         \<lparr>level = LevelWarn, regexp = Regexp HTTPClientErrorRegex\<rparr>,
         \<lparr>level = LevelError, regexp = Regexp HTTPServerErrorRegex\<rparr>],
      whitelistPaths = [],
      blacklistPaths = [],
      customLogger = None,
      customFields = None,
      ipField = True,
      statusField = True,
      methodField = True,
      pathField = True,
      userAgentField = True,
      latencyField = True,
      requestIDField = True\<rparr>"

definition testWorld :: "Config World" where
  "testWorld = \<lparr>config = defaultConfig, ctx = testContext, sink = []\<rparr>"

text \<open>The configuration \<open>New(logger, WithDefaultLevel(slog.LevelDebug))\<close> captures.\<close>

definition debugConfig :: Config where
  "debugConfig = defaultConfig\<lparr>defaultLevel := LevelDebug\<rparr>"

text \<open>
  A configuration with two rules that both match the codes 4XX: the expression \<open>4\<close>
  at ERROR, then the expression of the client errors at WARN.
\<close>

definition overlapConfig :: Config where
  "overlapConfig =
     defaultConfig\<lparr>httpLevels :=
       [\<lparr>level = LevelError, regexp = Regexp ''4''\<rparr>,
        \<lparr>level = LevelWarn, regexp = Regexp HTTPClientErrorRegex\<rparr>]\<rparr>"

text \<open>The same request for \<open>/test1\<close>, one of the two routes of the whitelist tests.\<close>

definition test1Context :: Context where
  "test1Context = testContext\<lparr>Request := testRequest\<lparr>URLPath := ''/test1''\<rparr>\<rparr>"

text \<open>The configuration \<open>New(logger, WithWhitelistPath([]string{"/test1", "/test2"}))\<close> captures.\<close>

definition whitelistConfig :: Config where
  "whitelistConfig = defaultConfig\<lparr>whitelistPaths := [Regexp ''/test1'', Regexp ''/test2'']\<rparr>"

definition recoveryEnv :: recovery_Env where
  "recoveryEnv =
     \<lparr>DumpRequest = (\<lambda>r. Some (Method r @ '' '' @ URLPath r @ '' HTTP/1.1'')),
      Stack = ''goroutine 1 [running]''\<rparr>"

definition recoveryWorld :: "recovery_Config World" where
  "recoveryWorld = \<lparr>config = recovery_newConfig, ctx = testContext, sink = []\<rparr>"

section \<open>The options package logger exports\<close>

text \<open>
  The fields of \<open>Config\<close> are unexported: outside the package a configuration is
  changed through these constructors only.
\<close>

inductive exported :: "regexp_pkg \<Rightarrow> ConfigOption \<Rightarrow> bool" for re :: regexp_pkg where
  "exported re (WithDefaultLevel lvl)"
| "exported re (WithHTTPLevels re kvs)"
| "exported re (WithWhitelistPath re ws)"
| "exported re (WithBlacklistPath re bs)"
| "exported re (WithCustomLogger l)"
| "exported re (WithCustomFields f)"
| "exported re WithoutDefaultFields"
| "exported re WithoutIP"
| "exported re WithoutStatus"
| "exported re WithoutMethod"
| "exported re WithoutPath"
| "exported re WithoutUserAgent"
| "exported re WithoutLatency"
| "exported re WithoutRequestID"

section \<open>Properties of the request logger\<close>

subsection \<open>The loops\<close>

lemma logStatus_find:
  "logStatus re hs attrs w =
     map_option (\<lambda>h. callCustomLogger (LogAttrs (level h) ''Incoming request'' attrs w))
       (find (\<lambda>h. match re h (Status (ctx w))) hs)"
  by (induction hs) simp_all

lemma whitelistReturns_iff:
  "whitelistReturns re vs path \<longleftrightarrow> \<not> list_all (\<lambda>v. MatchString re v path) vs"
  by (induction vs) simp_all

lemma blacklistReturns_iff:
  "blacklistReturns re vs path \<longleftrightarrow> list_ex (\<lambda>v. MatchString re v path) vs"
  by (induction vs) simp_all

subsection \<open>What the handler leaves alone\<close>

lemma callCustomLogger_config: "config (stateOf (callCustomLogger w)) = config w"
  by (simp add: callCustomLogger_def split: option.splits)

lemma callCustomLogger_ctx: "ctx (stateOf (callCustomLogger w)) = ctx w"
  by (simp add: callCustomLogger_def split: option.splits)

lemma callCustomLogger_sink: "\<exists>rest. sink (stateOf (callCustomLogger w)) = sink w @ rest"
  by (simp add: callCustomLogger_def split: option.splits)

text \<open>
  After the chain has returned the handler either returns at a path filter, or logs one
  record at the first-match level and calls the custom logger.
\<close>

lemma afterNext_cases:
  "afterNext re env w = Returned w \<or>
   afterNext re env w =
     callCustomLogger (LogAttrs (firstMatchLevel re (config w) (Status (ctx w)))
        ''Incoming request'' (attributes (config w) env (ctx w)) w)"
  unfolding afterNext_def logStatus_find firstMatchLevel_def match_def [abs_def]
  by (simp add: Let_def split: option.splits)

lemma afterNext_config: "config (stateOf (afterNext re env w)) = config w"
  using afterNext_cases [of re env w]
  by (auto simp: callCustomLogger_config LogAttrs_def)

lemma afterNext_ctx: "ctx (stateOf (afterNext re env w)) = ctx w"
  using afterNext_cases [of re env w]
  by (auto simp: callCustomLogger_ctx LogAttrs_def)

lemma handler_config: "config (stateOf (handler re env next w)) = config w"
  by (simp add: handler_def Let_def afterNext_config split: Result.splits)

subsection \<open>Level resolution\<close>

text \<open>
  Claim C1. Whatever the configuration, the regexp engine and the final status code: when
  the downstream chain returns and the path passes the filters (it matches every
  expression of the whitelist and none of the blacklist), the handler adds to the sink
  exactly its one record, followed by what the custom logger submits, if there is one.
  The record's level is the level of the first rule of \<open>httpLevels\<close> whose expression
  matches the decimal string of the final status code, and the default level when no rule
  matches.
\<close>

theorem level_of_first_matching_rule:
  assumes "chain (if requestIDField (config w)
                  then Context_Header (ctx w) ''X-Request-ID'' (requestID env)
                  else ctx w) = Returned c'"
    and "list_all (\<lambda>v. MatchString re v (URLPath (Request c'))) (whitelistPaths (config w))"
    and "\<not> list_ex (\<lambda>v. MatchString re v (URLPath (Request c'))) (blacklistPaths (config w))"
  shows "sink (stateOf (handler re env chain w)) =
           sink w @
           \<lparr>Level = (case find (\<lambda>h. MatchString re (regexp h) (Sprintf_d (Status c')))
                             (httpLevels (config w)) of
                      Some h \<Rightarrow> level h
                    | None \<Rightarrow> defaultLevel (config w)),
            Message = ''Incoming request'',
            Attrs = attributes (config w) env c'\<rparr> #
           (case customLogger (config w) of None \<Rightarrow> [] | Some f \<Rightarrow> f c')"
proof -
  let ?w1 = "w\<lparr>ctx := c'\<rparr>"
  have h: "handler re env chain w = afterNext re env ?w1"
    using assms(1) by (simp add: handler_def)
  have f: "\<not> whitelistReturns re (whitelistPaths (config w)) (URLPath (Request c'))"
    "\<not> blacklistReturns re (blacklistPaths (config w)) (URLPath (Request c'))"
    using assms(2,3) by (simp_all add: whitelistReturns_iff blacklistReturns_iff)
  have "afterNext re env ?w1 =
          callCustomLogger (LogAttrs (firstMatchLevel re (config w) (Status c'))
            ''Incoming request'' (attributes (config w) env c') ?w1)"
    unfolding afterNext_def logStatus_find firstMatchLevel_def match_def [abs_def]
    using f by (simp add: Let_def split: option.splits)
  then show ?thesis
    unfolding h
    by (simp add: callCustomLogger_def LogAttrs_def firstMatchLevel_def split: option.splits)
qed

text \<open>
  Three requests. Under the default configuration a chain that sets 404: the first three
  rules do not match, the fourth does, and the record is logged at WARN. Under a default
  level of DEBUG a chain that sets 600: no rule matches, and the record is logged at
  DEBUG. Under two rules that both match 404, ERROR before WARN: the record is logged at
  ERROR.
\<close>

theorem level_of_first_matching_rule_witness:
  "respond 404 (Context_Header testContext ''X-Request-ID'' (requestID testEnv)) =
     Returned ((Context_Header testContext ''X-Request-ID'' (requestID testEnv))\<lparr>Status := 404\<rparr>) \<and>
   whitelistPaths defaultConfig = [] \<and> blacklistPaths defaultConfig = [] \<and>
   map Level (sink (stateOf (handler standIn testEnv (respond 404) testWorld))) = [LevelWarn] \<and>
   respond 600 (Context_Header testContext ''X-Request-ID'' (requestID testEnv)) =
     Returned ((Context_Header testContext ''X-Request-ID'' (requestID testEnv))\<lparr>Status := 600\<rparr>) \<and>
   whitelistPaths debugConfig = [] \<and> blacklistPaths debugConfig = [] \<and>
   map Level (sink (stateOf (handler standIn testEnv (respond 600)
       \<lparr>config = debugConfig, ctx = testContext, sink = []\<rparr>))) = [LevelDebug] \<and>
   whitelistPaths overlapConfig = [] \<and> blacklistPaths overlapConfig = [] \<and>
   map Level (sink (stateOf (handler standIn testEnv (respond 404)
       \<lparr>config = overlapConfig, ctx = testContext, sink = []\<rparr>))) = [LevelError]"
proof -
  let ?c0 = "Context_Header testContext ''X-Request-ID'' (requestID testEnv)"
  have r: "respond code ?c0 = Returned (?c0\<lparr>Status := code\<rparr>)" for code
    by (simp add: respond_def)
  have e: "whitelistPaths defaultConfig = []" "blacklistPaths defaultConfig = []"
    "whitelistPaths debugConfig = []" "blacklistPaths debugConfig = []"
    "whitelistPaths overlapConfig = []" "blacklistPaths overlapConfig = []"
    by (simp_all add: defaultConfig_def debugConfig_def overlapConfig_def)
  have i: "requestIDField defaultConfig" "requestIDField debugConfig"
    "requestIDField overlapConfig"
    "customLogger defaultConfig = None" "customLogger debugConfig = None"
    "customLogger overlapConfig = None"
    by (simp_all add: defaultConfig_def debugConfig_def overlapConfig_def)
  have l1: "(case find (\<lambda>h. MatchString standIn (regexp h) (Sprintf_d (Status (?c0\<lparr>Status := 404\<rparr>))))
                   (httpLevels defaultConfig) of
              Some h \<Rightarrow> level h
            | None \<Rightarrow> defaultLevel defaultConfig) = LevelWarn"
    by code_simp
  have l2: "(case find (\<lambda>h. MatchString standIn (regexp h) (Sprintf_d (Status (?c0\<lparr>Status := 600\<rparr>))))
                   (httpLevels debugConfig) of
              Some h \<Rightarrow> level h
            | None \<Rightarrow> defaultLevel debugConfig) = LevelDebug"
    by code_simp
  have l3: "(case find (\<lambda>h. MatchString standIn (regexp h) (Sprintf_d (Status (?c0\<lparr>Status := 404\<rparr>))))
                   (httpLevels overlapConfig) of
              Some h \<Rightarrow> level h
            | None \<Rightarrow> defaultLevel overlapConfig) = LevelError"
    by code_simp
  have 1: "map Level (sink (stateOf (handler standIn testEnv (respond 404) testWorld))) =
             [LevelWarn]"
    unfolding testWorld_def
    using level_of_first_matching_rule [where re = standIn and env = testEnv
        and chain = "respond 404"
        and w = "\<lparr>config = defaultConfig, ctx = testContext, sink = []\<rparr>"
        and c' = "?c0\<lparr>Status := 404\<rparr>"]
      r e i l1
    by (simp cong del: option.case_cong_weak)
  have 2: "map Level (sink (stateOf (handler standIn testEnv (respond 600)
             \<lparr>config = debugConfig, ctx = testContext, sink = []\<rparr>))) = [LevelDebug]"
    using level_of_first_matching_rule [where re = standIn and env = testEnv
        and chain = "respond 600"
        and w = "\<lparr>config = debugConfig, ctx = testContext, sink = []\<rparr>"
        and c' = "?c0\<lparr>Status := 600\<rparr>"]
      r e i l2
    by (simp cong del: option.case_cong_weak)
  have 3: "map Level (sink (stateOf (handler standIn testEnv (respond 404)
             \<lparr>config = overlapConfig, ctx = testContext, sink = []\<rparr>))) = [LevelError]"
    using level_of_first_matching_rule [where re = standIn and env = testEnv
        and chain = "respond 404"
        and w = "\<lparr>config = overlapConfig, ctx = testContext, sink = []\<rparr>"
        and c' = "?c0\<lparr>Status := 404\<rparr>"]
      r e i l3
    by (simp cong del: option.case_cong_weak)
  show ?thesis
    using r e 1 2 3 by simp
qed

subsection \<open>The default configuration\<close>

lemma standIn_compiles_class:
  "compiles standIn HTTPInformationalRegex" "compiles standIn HTTPSuccessfulRegex"
  "compiles standIn HTTPRedirectionRegex" "compiles standIn HTTPClientErrorRegex"
  "compiles standIn HTTPServerErrorRegex"
  by code_simp+

lemma newConfig_ok:
  assumes "compiles re HTTPInformationalRegex" "compiles re HTTPSuccessfulRegex"
    "compiles re HTTPRedirectionRegex" "compiles re HTTPClientErrorRegex"
    "compiles re HTTPServerErrorRegex"
  shows "newConfig re = Inr defaultConfig"
  using assms by (simp add: newConfig_def newhttpLevel_def MustCompile_def defaultConfig_def)

lemma newConfig_cases:
  "(\<exists>p. newConfig re = Inl p) \<or> newConfig re = Inr defaultConfig"
  by (simp add: newConfig_def newhttpLevel_def MustCompile_def defaultConfig_def)

lemma newConfig_standIn: "newConfig standIn = Inr defaultConfig"
  by (rule newConfig_ok) (rule standIn_compiles_class)+

lemma New_default_cases: "New re [] = Inr cfg \<Longrightarrow> cfg = defaultConfig"
  using newConfig_cases [of re]
  by (auto simp: New_def split: sum.splits)

lemma New_default_standIn: "New standIn [] = Inr defaultConfig"
  by (simp add: New_def newConfig_standIn validate_def isDefaultFields_def defaultConfig_def)

lemma Sprintf_d_200: "Sprintf_d 200 = ''200''"
  by code_simp

text \<open>
  Claim C7. Under the default configuration, for any regexp engine that compiles the five
  status-class expressions and under which \<open>^2[0-9]{2}$\<close> matches \<open>200\<close>: when the
  chain returns with a \<open>GET\<close> request for \<open>/test\<close> and status 200, the handler adds
  exactly one record to the sink, at level INFO, whose attributes are exactly
  \<open>ip\<close>, \<open>status=200\<close>, \<open>method=GET\<close>, \<open>path=/test\<close>, \<open>user-agent\<close>,
  \<open>latency\<close> and \<open>request-id\<close>, in this order.
\<close>

theorem default_get_test_200:
  assumes "New re [] = Inr (config w)"
    and "matches re HTTPSuccessfulRegex ''200''"
    and "chain (Context_Header (ctx w) ''X-Request-ID'' (requestID env)) = Returned c'"
    and "Method (Request c') = ''GET''"
    and "URLPath (Request c') = ''/test''"
    and "Status c' = 200"
  shows "sink (stateOf (handler re env chain w)) =
           sink w @
           [\<lparr>Level = LevelInfo,
             Message = ''Incoming request'',
             Attrs =
               [(''ip'', StringValue (ClientIP c')),
                (''status'', IntValue 200),
                (''method'', StringValue ''GET''),
                (''path'', StringValue ''/test''),
                (''user-agent'', StringValue (UserAgent (Request c'))),
                (''latency'', DurationValue (latency env)),
                (''request-id'', StringValue (requestID env))]\<rparr>]"
proof -
  have cfg: "config w = defaultConfig"
    using assms(1) by (rule New_default_cases)
  let ?w1 = "w\<lparr>ctx := c'\<rparr>"
  have h: "handler re env chain w = afterNext re env ?w1"
    using assms(3) by (simp add: handler_def cfg defaultConfig_def)
  have a: "attributes (config ?w1) env (ctx ?w1) =
             [(''ip'', StringValue (ClientIP c')),
              (''status'', IntValue 200),
              (''method'', StringValue ''GET''),
              (''path'', StringValue ''/test''),
              (''user-agent'', StringValue (UserAgent (Request c'))),
              (''latency'', DurationValue (latency env)),
              (''request-id'', StringValue (requestID env))]"
    using assms(4-6)
    by (simp add: attributes_def cfg defaultConfig_def slog_String_def slog_Int_def
        slog_Duration_def)
  have m: "match re \<lparr>level = l, regexp = Regexp HTTPSuccessfulRegex\<rparr> 200" for l
    using assms(2) by (simp add: match_def MatchString_def Sprintf_d_200)
  have l: "logStatus re (httpLevels (config ?w1)) attrs ?w1 =
             Some (callCustomLogger (LogAttrs LevelInfo ''Incoming request'' attrs ?w1))"
    for attrs
    using assms(6) m by (simp add: cfg defaultConfig_def)
  have "afterNext re env ?w1 =
          callCustomLogger (LogAttrs LevelInfo ''Incoming request''
            (attributes (config ?w1) env (ctx ?w1)) ?w1)"
    unfolding afterNext_def Let_def l
    by (simp add: cfg defaultConfig_def)
  then show ?thesis
    unfolding h a
    by (simp add: callCustomLogger_def LogAttrs_def cfg defaultConfig_def)
qed

text \<open>The request of the test \<open>default options\<close>, with the stand-in engine.\<close>

theorem default_get_test_200_witness:
  "New standIn [] = Inr (config testWorld) \<and>
   matches standIn HTTPSuccessfulRegex ''200'' \<and>
   respond 200 (Context_Header (ctx testWorld) ''X-Request-ID'' (requestID testEnv)) =
     Returned ((Context_Header testContext ''X-Request-ID'' (requestID testEnv))\<lparr>Status := 200\<rparr>) \<and>
   sink (stateOf (handler standIn testEnv (respond 200) testWorld)) =
     [\<lparr>Level = 0,
       Message = ''Incoming request'',
       Attrs =
         [(''ip'', StringValue ''192.0.2.1''),
          (''status'', IntValue 200),
          (''method'', StringValue ''GET''),
          (''path'', StringValue ''/test''),
          (''user-agent'', StringValue ''test''),
          (''latency'', DurationValue 1500),
          (''request-id'', StringValue ''52fdfc07-2182-454f-963f-5f0f9a621d72'')]\<rparr>]"
proof -
  have 1: "New standIn [] = Inr (config testWorld)"
    by (simp add: New_default_standIn testWorld_def)
  have 2: "matches standIn HTTPSuccessfulRegex ''200''"
    by code_simp
  have 3: "respond 200 (Context_Header (ctx testWorld) ''X-Request-ID'' (requestID testEnv)) =
     Returned ((Context_Header testContext ''X-Request-ID'' (requestID testEnv))\<lparr>Status := 200\<rparr>)"
    by (simp add: respond_def testWorld_def)
  show ?thesis
    using 1 2 3
      default_get_test_200 [where re = standIn and w = testWorld and env = testEnv
        and chain = "respond 200"
        and c' = "(Context_Header testContext ''X-Request-ID'' (requestID testEnv))\<lparr>Status := 200\<rparr>"]
    by (simp add: Context_Header_def testContext_def testRequest_def testEnv_def testWorld_def
        LevelInfo_def)
qed

subsection \<open>The nil custom logger\<close>

text \<open>
  With a nil \<open>customLogger\<close> the handler panics after the chain has returned exactly
  when it has logged its record.
\<close>

lemma afterNext_nil_customLogger:
  assumes "customLogger (config w) = None"
  shows "panicOf (afterNext re env w) =
           (if sink (stateOf (afterNext re env w)) \<noteq> sink w then Some nilDereference else None)"
  using afterNext_cases [of re env w] assms
  by (auto simp: callCustomLogger_def LogAttrs_def)

text \<open>
  Claim C4, at the input where the code departs from it: the default configuration, built
  by \<open>New\<close> without options, and the request \<open>GET /test\<close> answered with 200. The
  handler logs its record and then panics with a nil dereference, because
  \<open>config.customLogger\<close> is nil and is called all the same.
\<close>

theorem default_config_calls_nil_customLogger:
  "New standIn [] = Inr defaultConfig \<and>
   customLogger defaultConfig = None \<and>
   panicOf (handler standIn testEnv (respond 200) testWorld) = Some nilDereference \<and>
   length (sink (stateOf (handler standIn testEnv (respond 200) testWorld))) = 1"
proof -
  have 1: "customLogger defaultConfig = None"
    by (simp add: defaultConfig_def)
  have 2: "panicOf (handler standIn testEnv (respond 200) testWorld) = Some nilDereference"
    by code_simp
  have 3: "length (sink (stateOf (handler standIn testEnv (respond 200) testWorld))) = 1"
    by code_simp
  show ?thesis
    using New_default_standIn 1 2 3 by simp
qed

subsection \<open>The whitelist\<close>

lemma callCustomLogger_LogAttrs_sink:
  "sink (stateOf (callCustomLogger (LogAttrs lvl msg attrs w))) \<noteq> sink w"
  by (simp add: callCustomLogger_def LogAttrs_def split: option.splits)

text \<open>
  What the two filter loops compute: after the chain has returned, a record is logged
  exactly when the path matches every expression of the whitelist and no expression of
  the blacklist.
\<close>

lemma afterNext_logs_iff:
  "sink (stateOf (afterNext re env w)) \<noteq> sink w \<longleftrightarrow>
     list_all (\<lambda>v. MatchString re v (URLPath (Request (ctx w)))) (whitelistPaths (config w)) \<and>
     \<not> list_ex (\<lambda>v. MatchString re v (URLPath (Request (ctx w)))) (blacklistPaths (config w))"
proof -
  have e: "list_all P xs" "\<not> list_ex P xs" if "xs = []" for P :: "Regexp \<Rightarrow> bool" and xs
    using that by simp_all
  show ?thesis
    unfolding afterNext_def logStatus_find whitelistReturns_iff blacklistReturns_iff Let_def
    by (auto simp: callCustomLogger_LogAttrs_sink e split: option.splits)
qed

lemma New_whitelist:
  "New standIn [WithWhitelistPath standIn [''/test1'', ''/test2'']] = Inr whitelistConfig"
proof -
  have c: "compiles standIn ''/test1''" "compiles standIn ''/test2''"
    by code_simp+
  show ?thesis
    by (simp add: New_def newConfig_standIn WithWhitelistPath_def MustCompile_def c
        validate_def isDefaultFields_def whitelistConfig_def defaultConfig_def)
qed

text \<open>
  Claim C3, at the input where the code departs from it: a whitelist of \<open>/test1\<close> and
  \<open>/test2\<close>, and a request for \<open>/test1\<close>. The path matches the first expression of
  the whitelist, yet the handler returns at the second, which it does not match, and
  logs nothing.
\<close>

theorem whitelist_needs_every_expression:
  "New standIn [WithWhitelistPath standIn [''/test1'', ''/test2'']] = Inr whitelistConfig \<and>
   list_ex (\<lambda>v. MatchString standIn v (URLPath (Request test1Context)))
     (whitelistPaths whitelistConfig) \<and>
   handler standIn testEnv (respond 200)
       \<lparr>config = whitelistConfig, ctx = test1Context, sink = []\<rparr> =
     Returned
       \<lparr>config = whitelistConfig,
        ctx = (Context_Header test1Context ''X-Request-ID'' (requestID testEnv))\<lparr>Status := 200\<rparr>,
        sink = []\<rparr>"
proof -
  have m: "MatchString standIn (Regexp ''/test1'') ''/test1''"
    "\<not> MatchString standIn (Regexp ''/test2'') ''/test1''"
    by code_simp+
  have p: "URLPath (Request test1Context) = ''/test1''"
    by code_simp
  have w: "whitelistPaths whitelistConfig = [Regexp ''/test1'', Regexp ''/test2'']"
    "requestIDField whitelistConfig"
    by (simp_all add: whitelistConfig_def defaultConfig_def)
  have 1: "list_ex (\<lambda>v. MatchString standIn v (URLPath (Request test1Context)))
             (whitelistPaths whitelistConfig)"
    by (simp add: p w m)
  have 2: "handler standIn testEnv (respond 200)
       \<lparr>config = whitelistConfig, ctx = test1Context, sink = []\<rparr> =
     Returned
       \<lparr>config = whitelistConfig,
        ctx = (Context_Header test1Context ''X-Request-ID'' (requestID testEnv))\<lparr>Status := 200\<rparr>,
        sink = []\<rparr>"
    by (simp add: handler_def afterNext_def respond_def w m p Context_Header_def)
  show ?thesis
    using New_whitelist 1 2 by simp
qed

subsection \<open>The request identifier\<close>

text \<open>
  Claim C8. When \<open>requestIDField\<close> is set (and the identifier is not the empty string,
  which \<open>uuid.New().String()\<close> never returns), the context the handler ends with is the
  one the downstream chain leaves when it is run on the incoming context with the
  response header \<open>X-Request-ID\<close> already set to the identifier. This holds for every
  chain, whether it returns or panics, and for every path, filtered or not.
\<close>

theorem request_id_header_before_chain:
  assumes "requestIDField (config w)"
    and "requestID env \<noteq> []"
  shows "ctx (stateOf (handler re env chain w)) =
           stateOf (chain ((ctx w)\<lparr>Header := (Header (ctx w))(''X-Request-ID'' \<mapsto> requestID env)\<rparr>))"
  using assms
  by (simp add: handler_def Context_Header_def afterNext_ctx split: Result.splits)

text \<open>
  A request for \<open>/test\<close> under the whitelist of \<open>/test1\<close> and \<open>/test2\<close>: nothing is
  logged, and the response carries the header.
\<close>

theorem request_id_header_before_chain_witness:
  "requestIDField whitelistConfig \<and> requestID testEnv \<noteq> [] \<and>
   sink (stateOf (handler standIn testEnv (respond 200)
       \<lparr>config = whitelistConfig, ctx = testContext, sink = []\<rparr>)) = [] \<and>
   Header (ctx (stateOf (handler standIn testEnv (respond 200)
       \<lparr>config = whitelistConfig, ctx = testContext, sink = []\<rparr>))) ''X-Request-ID'' =
     Some ''52fdfc07-2182-454f-963f-5f0f9a621d72''"
proof -
  have 1: "requestIDField (config \<lparr>config = whitelistConfig, ctx = testContext, sink = []\<rparr>)"
    by (simp add: whitelistConfig_def defaultConfig_def)
  have 2: "requestID testEnv \<noteq> []"
    by (simp add: testEnv_def)
  have 3: "sink (stateOf (handler standIn testEnv (respond 200)
       \<lparr>config = whitelistConfig, ctx = testContext, sink = []\<rparr>)) = []"
    by code_simp
  show ?thesis
    using 1 2 3
      request_id_header_before_chain [where re = standIn and env = testEnv
        and chain = "respond 200"
        and w = "\<lparr>config = whitelistConfig, ctx = testContext, sink = []\<rparr>"]
    by (simp add: respond_def testEnv_def)
qed

section \<open>Properties of the recovery middleware\<close>

lemma recovery_New_default: "recovery_New [] = Inr recovery_newConfig"
  by (simp add: recovery_New_def recovery_validate_def recovery_isDefaultFields_def
      recovery_newConfig_def)

lemma recovered_config: "config (stateOf (recovered env err w)) = config w"
  by (simp add: recovered_def callCustomRecovery_def LogAttrs_def split: option.splits)

lemma recovery_handler_config: "config (stateOf (recovery_handler env chain w)) = config w"
  by (simp add: recovery_handler_def recovered_config split: Result.splits)

text \<open>
  Claim C2, at an input where it fails as stated: under the default configuration, a
  chain that writes its response with status 200 and then panics. The handler returns and
  logs its record, but the status of the response stays 200: it was sent before the
  panic, and \<open>AbortWithStatus\<close> cannot change it.
\<close>

theorem written_response_keeps_its_status:
  "recovery_New [] = Inr (config recoveryWorld) \<and>
   panicOf (writesThenPanics 200 ''boom'' (ctx recoveryWorld)) = Some (PanicString ''boom'') \<and>
   panicOf (recovery_handler recoveryEnv (writesThenPanics 200 ''boom'') recoveryWorld) = None \<and>
   length (sink (stateOf
     (recovery_handler recoveryEnv (writesThenPanics 200 ''boom'') recoveryWorld))) = 1 \<and>
   Status (ctx (stateOf
     (recovery_handler recoveryEnv (writesThenPanics 200 ''boom'') recoveryWorld))) = 200 \<and>
   Status (ctx (stateOf
     (recovery_handler recoveryEnv (writesThenPanics 200 ''boom'') recoveryWorld))) \<noteq> 500"
proof -
  have 1: "recovery_New [] = Inr (config recoveryWorld)"
    by (simp add: recovery_New_default recoveryWorld_def)
  have 2: "panicOf (writesThenPanics 200 ''boom'' (ctx recoveryWorld)) =
             Some (PanicString ''boom'')"
    by (simp add: writesThenPanics_def)
  have 3: "recovery_handler recoveryEnv (writesThenPanics 200 ''boom'') recoveryWorld =
             Returned (stateOf
               (recovery_handler recoveryEnv (writesThenPanics 200 ''boom'') recoveryWorld))"
    by (simp add: recovery_handler_def recovered_def callCustomRecovery_def
        writesThenPanics_def recoveryWorld_def recovery_newConfig_def LogAttrs_def)
  have 4: "length (sink (stateOf
             (recovery_handler recoveryEnv (writesThenPanics 200 ''boom'') recoveryWorld))) = 1"
    by (simp add: recovery_handler_def recovered_def callCustomRecovery_def
        writesThenPanics_def recoveryWorld_def recovery_newConfig_def LogAttrs_def)
  have 5: "Status (ctx (stateOf
             (recovery_handler recoveryEnv (writesThenPanics 200 ''boom'') recoveryWorld))) = 200"
    by (simp add: recovery_handler_def recovered_def callCustomRecovery_def
        writesThenPanics_def recoveryWorld_def recovery_newConfig_def LogAttrs_def
        AbortWithStatus_def Abort_def WriteHeaderNow_def WriteHeader_def
        StatusInternalServerError_def testContext_def)
  have 6: "panicOf (recovery_handler recoveryEnv (writesThenPanics 200 ''boom'') recoveryWorld) =
             None"
    by (subst 3) simp
  show ?thesis
    using 1 2 4 5 6 by simp
qed

text \<open>
  Claim C2, amended. Under the default configuration, whatever value the downstream chain
  panics with and whatever state it leaves the context in: the handler returns (the
  panic does not leave it), the sink gains exactly one record, with message
  \<open>Panic recovered\<close>, at level ERROR, with the attributes \<open>error\<close>, \<open>request\<close> and
  \<open>stack\<close>, and the context ends aborted, with its response written. The status of the
  response is 500 when the chain had not written the response before it panicked;
  otherwise it is the status the chain wrote.
\<close>

theorem default_recovery_logs_once_and_answers_500:
  assumes "recovery_New [] = Inr (config w)"
    and "chain (ctx w) = Panicked err c'"
  shows "recovery_handler env chain w =
           Returned (w\<lparr>ctx := c'\<lparr>Status := (if Written c' then Status c' else 500),
                                 Written := True, Aborted := True\<rparr>,
                      sink := sink w @
                        [\<lparr>Level = LevelError,
                          Message = ''Panic recovered'',
                          Attrs =
                            [(''error'', AnyValue err),
                             (''request'', StringValue
                                (case DumpRequest env (Request c') of None \<Rightarrow> [] | Some b \<Rightarrow> b)),
                             (''stack'', StringValue (Stack env))]\<rparr>]\<rparr>)"
proof -
  have cfg: "config w = recovery_newConfig"
    using assms(1) by (simp add: recovery_New_default)
  have a: "AbortWithStatus c' StatusInternalServerError =
             c'\<lparr>Status := (if Written c' then Status c' else 500),
                Written := True, Aborted := True\<rparr>"
    by (simp add: AbortWithStatus_def Abort_def WriteHeaderNow_def WriteHeader_def
        StatusInternalServerError_def)
  show ?thesis
    using assms(2)
    by (simp add: recovery_handler_def recovered_def callCustomRecovery_def LogAttrs_def cfg
        recovery_newConfig_def a
        recovery_attributes_def recovery_isDefaultFields_def slog_Any_def slog_String_def)
qed

text \<open>A handler that panics with \<open>boom\<close> on the test request, before writing anything.\<close>

theorem default_recovery_logs_once_and_answers_500_witness:
  "recovery_New [] = Inr (config recoveryWorld) \<and>
   panicking ''boom'' (ctx recoveryWorld) = Panicked (PanicString ''boom'') testContext \<and>
   recovery_handler recoveryEnv (panicking ''boom'') recoveryWorld =
     Returned
       \<lparr>config = recovery_newConfig,
        ctx = testContext\<lparr>Status := 500, Written := True, Aborted := True\<rparr>,
        sink =
          [\<lparr>Level = 8,
            Message = ''Panic recovered'',
            Attrs =
              [(''error'', AnyValue (PanicString ''boom'')),
               (''request'', StringValue ''GET /test HTTP/1.1''),
               (''stack'', StringValue ''goroutine 1 [running]'')]\<rparr>]\<rparr>"
proof -
  have 1: "recovery_New [] = Inr (config recoveryWorld)"
    by (simp add: recovery_New_default recoveryWorld_def)
  have 2: "panicking ''boom'' (ctx recoveryWorld) = Panicked (PanicString ''boom'') testContext"
    by (simp add: panicking_def recoveryWorld_def)
  show ?thesis
    using 1 2
      default_recovery_logs_once_and_answers_500 [where w = recoveryWorld
        and chain = "panicking ''boom''" and env = recoveryEnv
        and err = "PanicString ''boom''" and c' = testContext]
    by (simp add: recoveryWorld_def recoveryEnv_def testContext_def testRequest_def
        LevelError_def)
qed

text \<open>
  Claim C10. Whatever the configuration: when the downstream chain returns, the recovery
  handler returns too, with the sink and the captured configuration as they were and the
  context exactly as the chain left it.
\<close>

theorem recovery_transparent_without_panic:
  assumes "chain (ctx w) = Returned c'"
  shows "recovery_handler env chain w = Returned (w\<lparr>ctx := c'\<rparr>)"
  using assms by (simp add: recovery_handler_def)

text \<open>A handler that answers 204.\<close>

theorem recovery_transparent_without_panic_witness:
  "respond 204 (ctx recoveryWorld) = Returned (testContext\<lparr>Status := 204\<rparr>) \<and>
   recovery_handler recoveryEnv (respond 204) recoveryWorld =
     Returned \<lparr>config = recovery_newConfig, ctx = testContext\<lparr>Status := 204\<rparr>, sink = []\<rparr>"
proof -
  have 1: "respond 204 (ctx recoveryWorld) = Returned (testContext\<lparr>Status := 204\<rparr>)"
    by (simp add: respond_def recoveryWorld_def)
  show ?thesis
    using 1
      recovery_transparent_without_panic [where w = recoveryWorld and chain = "respond 204"
        and env = recoveryEnv and c' = "testContext\<lparr>Status := 204\<rparr>"]
    by (simp add: recoveryWorld_def)
qed

section \<open>Properties of the configuration\<close>

subsection \<open>Built once, never written by a handler\<close>

text \<open>
  Claim C9. For both middlewares: the configuration a handler captures is the result of
  applying the options, in order, to \<open>newConfig()\<close>, and it has passed \<open>validate\<close>;
  and a handler, whatever the request and the chain, whether it returns or panics, leaves
  the captured configuration as it found it.
\<close>

theorem config_built_once_never_mutated:
  "(New re opts = Inr cfg \<longrightarrow>
      (\<exists>c0. newConfig re = Inr c0 \<and> applyOpts opts c0 = Inr cfg \<and> validate cfg = Inr ())) \<and>
   config (stateOf (handler re env chain w)) = config w \<and>
   (recovery_New ropts = Inr rcfg \<longrightarrow>
      applyOpts ropts recovery_newConfig = Inr rcfg \<and> recovery_validate rcfg = Inr ()) \<and>
   config (stateOf (recovery_handler renv rchain rw)) = config rw"
  by (auto simp: New_def recovery_New_def handler_config recovery_handler_config
      split: sum.splits)

text \<open>The logger without the \<open>ip\<close> attribute, the recovery without the stack.\<close>

theorem config_built_once_never_mutated_witness:
  "New standIn [WithoutIP] = Inr (defaultConfig\<lparr>ipField := False\<rparr>) \<and>
   newConfig standIn = Inr defaultConfig \<and>
   applyOpts [WithoutIP] defaultConfig = Inr (defaultConfig\<lparr>ipField := False\<rparr>) \<and>
   validate (defaultConfig\<lparr>ipField := False\<rparr>) = Inr () \<and>
   config (stateOf (handler standIn testEnv (respond 200)
     \<lparr>config = defaultConfig\<lparr>ipField := False\<rparr>, ctx = testContext, sink = []\<rparr>)) =
     defaultConfig\<lparr>ipField := False\<rparr> \<and>
   recovery_New [WithoutStack] = Inr (recovery_newConfig\<lparr>stackField := False\<rparr>) \<and>
   applyOpts [WithoutStack] recovery_newConfig = Inr (recovery_newConfig\<lparr>stackField := False\<rparr>) \<and>
   recovery_validate (recovery_newConfig\<lparr>stackField := False\<rparr>) = Inr () \<and>
   config (stateOf (recovery_handler recoveryEnv (panicking ''boom'')
     \<lparr>config = recovery_newConfig\<lparr>stackField := False\<rparr>, ctx = testContext, sink = []\<rparr>)) =
     recovery_newConfig\<lparr>stackField := False\<rparr>"
proof -
  have 1: "New standIn [WithoutIP] = Inr (defaultConfig\<lparr>ipField := False\<rparr>)"
    by (simp add: New_def newConfig_standIn WithoutIP_def validate_def isDefaultFields_def
        defaultConfig_def)
  have 2: "recovery_New [WithoutStack] = Inr (recovery_newConfig\<lparr>stackField := False\<rparr>)"
    by (simp add: recovery_New_def WithoutStack_def recovery_validate_def
        recovery_isDefaultFields_def recovery_newConfig_def)
  show ?thesis
    using 1 2 newConfig_standIn
      config_built_once_never_mutated [where re = standIn and opts = "[WithoutIP]"
        and cfg = "defaultConfig\<lparr>ipField := False\<rparr>" and env = testEnv
        and chain = "respond 200"
        and w = "\<lparr>config = defaultConfig\<lparr>ipField := False\<rparr>, ctx = testContext, sink = []\<rparr>"
        and ropts = "[WithoutStack]" and rcfg = "recovery_newConfig\<lparr>stackField := False\<rparr>"
        and renv = recoveryEnv and rchain = "panicking ''boom''"
        and rw = "\<lparr>config = recovery_newConfig\<lparr>stackField := False\<rparr>, ctx = testContext, sink = []\<rparr>"]
    by (simp del: applyOpts.simps)
qed

subsection \<open>Whitelist together with blacklist\<close>

lemmas option_defs =
  WithDefaultLevel_def WithHTTPLevels_def WithWhitelistPath_def WithBlacklistPath_def
  WithCustomLogger_def WithCustomFields_def WithoutDefaultFields_def WithoutIP_def
  WithoutStatus_def WithoutMethod_def WithoutPath_def WithoutUserAgent_def
  WithoutLatency_def WithoutRequestID_def

lemma appendCompiled_length:
  "appendCompiled re acc vs = Inr rs \<Longrightarrow> length rs = length acc + length vs"
  by (induction vs arbitrary: acc) (auto split: sum.splits)

text \<open>No exported option shortens the whitelist or the blacklist.\<close>

lemma exported_grows:
  assumes "exported re opt" and "opt c = Inr c'"
  shows "length (whitelistPaths c) \<le> length (whitelistPaths c') \<and>
         length (blacklistPaths c) \<le> length (blacklistPaths c')"
  using assms
  by (cases rule: exported.cases)
     (auto simp: option_defs split: sum.splits dest: appendCompiled_length)

lemma applyOpts_grows:
  assumes "list_all (exported re) opts" and "applyOpts opts c = Inr c'"
  shows "length (whitelistPaths c) \<le> length (whitelistPaths c') \<and>
         length (blacklistPaths c) \<le> length (blacklistPaths c')"
  using assms
proof (induction opts arbitrary: c)
  case Nil
  then show ?case by simp
next
  case (Cons opt opts)
  then obtain ci where ci: "opt c = Inr ci" "applyOpts opts ci = Inr c'"
    by (auto split: sum.splits)
  from Cons.prems(1) have "exported re opt" "list_all (exported re) opts"
    by simp_all
  with ci Cons.IH [of ci] exported_grows [of re opt c ci] show ?case
    by simp
qed

text \<open>
  When the options all return, each of them has returned on some configuration, and the
  lists it left are no longer than the final ones.
\<close>

lemma applyOpts_passes:
  assumes "list_all (exported re) opts" and "applyOpts opts c = Inr c'" and "opt \<in> set opts"
  shows "\<exists>ci ci'. opt ci = Inr ci' \<and>
           length (whitelistPaths ci') \<le> length (whitelistPaths c') \<and>
           length (blacklistPaths ci') \<le> length (blacklistPaths c')"
  using assms
proof (induction opts arbitrary: c)
  case Nil
  then show ?case by simp
next
  case (Cons o1 opts)
  then obtain c1 where c1: "o1 c = Inr c1" "applyOpts opts c1 = Inr c'"
    by (auto split: sum.splits)
  from Cons.prems(1) have ex: "list_all (exported re) opts"
    by simp
  show ?case
  proof (cases "opt = o1")
    case True
    with c1 applyOpts_grows [OF ex c1(2)] show ?thesis
      by blast
  next
    case False
    with Cons.prems(3) have "opt \<in> set opts" by simp
    from Cons.IH [OF ex c1(2) this] show ?thesis .
  qed
qed

lemma validate_both_lists:
  "whitelistPaths c \<noteq> [] \<Longrightarrow> blacklistPaths c \<noteq> [] \<Longrightarrow>
   validate c = Inl (PanicString ''whitelist and blacklist can't be used together'')"
  by (simp add: validate_def)

text \<open>
  Claim C5. Whatever the regexp engine and whatever the other exported options and their
  order: when the options given to \<open>New\<close> include \<open>WithWhitelistPath\<close> of a non-empty
  list and \<open>WithBlacklistPath\<close> of a non-empty list, \<open>New\<close> panics, and so returns no
  handler that could serve a request.
\<close>

theorem whitelist_with_blacklist_aborts:
  assumes "list_all (exported re) opts"
    and "WithWhitelistPath re ws \<in> set opts" and "ws \<noteq> []"
    and "WithBlacklistPath re bs \<in> set opts" and "bs \<noteq> []"
  shows "\<exists>p. New re opts = Inl p"
proof (cases "newConfig re")
  case (Inl p)
  then show ?thesis by (simp add: New_def)
next
  case (Inr c0)
  show ?thesis
  proof (cases "applyOpts opts c0")
    case (Inl p)
    with Inr show ?thesis by (simp add: New_def)
  next
    case c: (Inr c)
    from applyOpts_passes [OF assms(1) c assms(2)]
    obtain ci ci' where w: "WithWhitelistPath re ws ci = Inr ci'"
      "length (whitelistPaths ci') \<le> length (whitelistPaths c)"
      by blast
    from w(1) have "length (whitelistPaths ci') = length (whitelistPaths ci) + length ws"
      by (auto simp: WithWhitelistPath_def split: sum.splits dest: appendCompiled_length)
    with w(2) assms(3) have wl: "whitelistPaths c \<noteq> []"
      by (cases ws) auto
    from applyOpts_passes [OF assms(1) c assms(4)]
    obtain cj cj' where b: "WithBlacklistPath re bs cj = Inr cj'"
      "length (blacklistPaths cj') \<le> length (blacklistPaths c)"
      by blast
    from b(1) have "length (blacklistPaths cj') = length (blacklistPaths cj) + length bs"
      by (auto simp: WithBlacklistPath_def split: sum.splits dest: appendCompiled_length)
    with b(2) assms(5) have bl: "blacklistPaths c \<noteq> []"
      by (cases bs) auto
    from Inr c validate_both_lists [OF wl bl] show ?thesis
      by (simp add: New_def)
  qed
qed

text \<open>
  The options of the test \<open>whitelist and blacklist test1\<close>: the panic is the one of
  \<open>validate\<close>.
\<close>

theorem whitelist_with_blacklist_aborts_witness:
  "list_all (exported standIn)
     [WithWhitelistPath standIn [''/test1''], WithBlacklistPath standIn [''/test1'']] \<and>
   WithWhitelistPath standIn [''/test1''] \<in>
     set [WithWhitelistPath standIn [''/test1''], WithBlacklistPath standIn [''/test1'']] \<and>
   [''/test1''] \<noteq> [] \<and>
   WithBlacklistPath standIn [''/test1''] \<in>
     set [WithWhitelistPath standIn [''/test1''], WithBlacklistPath standIn [''/test1'']] \<and>
   New standIn [WithWhitelistPath standIn [''/test1''], WithBlacklistPath standIn [''/test1'']] =
     Inl (PanicString ''whitelist and blacklist can't be used together'')"
proof -
  let ?opts = "[WithWhitelistPath standIn [''/test1''], WithBlacklistPath standIn [''/test1'']]"
  have 1: "list_all (exported standIn) ?opts"
    by (simp add: exported.intros)
  have 2: "WithWhitelistPath standIn [''/test1''] \<in> set ?opts"
    by simp
  have 3: "[''/test1''] \<noteq> []"
    by simp
  have 4: "WithBlacklistPath standIn [''/test1''] \<in> set ?opts"
    by simp
  have c: "compiles standIn ''/test1''"
    by code_simp
  have 5: "(\<exists>p. New standIn ?opts = Inl p) \<longrightarrow> New standIn ?opts =
     Inl (PanicString ''whitelist and blacklist can't be used together'')"
    by (simp add: New_def newConfig_standIn WithWhitelistPath_def WithBlacklistPath_def
        MustCompile_def c validate_def defaultConfig_def)
  show ?thesis
    using 1 2 3 4 5 whitelist_with_blacklist_aborts [OF 1 2 3 4 3] by blast
qed

subsection \<open>No fields to log\<close>

text \<open>
  Claim C6. For both factories: when the options leave a configuration with every default
  field flag off and no custom-field callback, the factory panics instead of returning a
  handler. The recovery factory panics with \<open>no fields to log\<close>; so does the logger
  factory, unless its earlier check of whitelist against blacklist has panicked first.
\<close>

theorem no_fields_aborts:
  "(newConfig re = Inr c0 \<longrightarrow> applyOpts opts c0 = Inr c \<longrightarrow>
      \<not> isDefaultFields c \<longrightarrow> customFields c = None \<longrightarrow>
      New re opts = Inl (PanicString ''no fields to log'') \<or>
      New re opts = Inl (PanicString ''whitelist and blacklist can't be used together'')) \<and>
   (applyOpts ropts recovery_newConfig = Inr rc \<longrightarrow>
      \<not> recovery_isDefaultFields rc \<longrightarrow> recovery_customFields rc = None \<longrightarrow>
      recovery_New ropts = Inl (PanicString ''no fields to log''))"
  by (simp add: New_def validate_def recovery_New_def recovery_validate_def)

text \<open>The option of the test \<open>without default fields\<close>, for each factory.\<close>

theorem no_fields_aborts_witness:
  "newConfig standIn = Inr defaultConfig \<and>
   (\<exists>c. applyOpts [WithoutDefaultFields] defaultConfig = Inr c \<and>
         \<not> isDefaultFields c \<and> customFields c = None) \<and>
   New standIn [WithoutDefaultFields] = Inl (PanicString ''no fields to log'') \<and>
   (\<exists>rc. applyOpts [recovery_WithoutDefaultFields] recovery_newConfig = Inr rc \<and>
         \<not> recovery_isDefaultFields rc \<and> recovery_customFields rc = None) \<and>
   recovery_New [recovery_WithoutDefaultFields] = Inl (PanicString ''no fields to log'')"
proof -
  let ?c = "defaultConfig\<lparr>ipField := False, statusField := False, methodField := False,
            pathField := False, userAgentField := False, latencyField := False,
            requestIDField := False\<rparr>"
  let ?rc = "recovery_newConfig\<lparr>errorField := False, requestField := False, stackField := False\<rparr>"
  have 1: "applyOpts [WithoutDefaultFields] defaultConfig = Inr ?c"
    by (simp add: WithoutDefaultFields_def)
  have 2: "\<not> isDefaultFields ?c" "customFields ?c = None" "whitelistPaths ?c = []"
    by (simp_all add: isDefaultFields_def defaultConfig_def)
  have 3: "applyOpts [recovery_WithoutDefaultFields] recovery_newConfig = Inr ?rc"
    by (simp add: recovery_WithoutDefaultFields_def)
  have 4: "\<not> recovery_isDefaultFields ?rc" "recovery_customFields ?rc = None"
    by (simp_all add: recovery_isDefaultFields_def recovery_newConfig_def)
  have 5: "New standIn [WithoutDefaultFields] \<noteq>
             Inl (PanicString ''whitelist and blacklist can't be used together'')"
    by (simp add: New_def newConfig_standIn 1 validate_def 2 del: applyOpts.simps)
  show ?thesis
    using newConfig_standIn 1 2 3 4 5
      no_fields_aborts [where re = standIn and opts = "[WithoutDefaultFields]"
        and ?c0.0 = defaultConfig and c = ?c
        and ropts = "[recovery_WithoutDefaultFields]" and rc = ?rc]
    by (simp del: applyOpts.simps)
qed

end
